theory Spec2Isabelle
  imports Complex_Main
begin

section \<open>Broad jump: live\_broad\_jump\_test.py\<close>

text \<open>
  Python floats are read as real numbers. The one place where that reading would hide
  behaviour is a division whose divisor can be zero: \<open>px_per_meter\<close> is a numpy scalar
  (it comes from \<open>np.sqrt\<close>), and numpy scalar division by zero does not raise, it yields
  \<open>inf\<close> or \<open>nan\<close>. Values that pass through such a division are therefore of type
  \<open>npfloat\<close>, and comparisons on them follow IEEE: every comparison with \<open>nan\<close> is false.
\<close>

datatype npfloat = Fin real | PosInf | NegInf | NaN

definition np_truediv :: "real \<Rightarrow> real \<Rightarrow> npfloat" where
  "np_truediv a b =
     (if b \<noteq> 0 then Fin (a / b)
      else if a = 0 then NaN
      else if 0 < a then PosInf else NegInf)"

fun np_less :: "npfloat \<Rightarrow> npfloat \<Rightarrow> bool" where
  "np_less NaN _ = False"
| "np_less _ NaN = False"
| "np_less (Fin a) (Fin b) = (a < b)"
| "np_less NegInf NegInf = False"
| "np_less NegInf _ = True"
| "np_less _ NegInf = False"
| "np_less PosInf _ = False"
| "np_less _ PosInf = True"

fun np_add :: "npfloat \<Rightarrow> npfloat \<Rightarrow> npfloat" where
  "np_add NaN _ = NaN"
| "np_add _ NaN = NaN"
| "np_add (Fin a) (Fin b) = Fin (a + b)"
| "np_add PosInf NegInf = NaN"
| "np_add NegInf PosInf = NaN"
| "np_add PosInf _ = PosInf"
| "np_add _ PosInf = PosInf"
| "np_add NegInf _ = NegInf"
| "np_add _ NegInf = NegInf"

text \<open>Division of a float by a positive count (\<open>sum(results) / len(results)\<close>).\<close>

fun np_div_count :: "npfloat \<Rightarrow> nat \<Rightarrow> npfloat" where
  "np_div_count (Fin a) n = Fin (a / real n)"
| "np_div_count x n = x"

subsection \<open>Configuration constants\<close>

definition MAX_TRIALS :: nat where "MAX_TRIALS = 3"
definition STATIC_FRAMES_REQUIRED :: nat where "STATIC_FRAMES_REQUIRED = 5"
definition STATIC_TOLERANCE_PX :: real where "STATIC_TOLERANCE_PX = 10"
definition TAKEOFF_VELOCITY :: real where "TAKEOFF_VELOCITY = 20"
definition LANDING_VELOCITY :: real where "LANDING_VELOCITY = 8"
definition LANDING_STABLE_FRAMES :: nat where "LANDING_STABLE_FRAMES = 4"

subsection \<open>smooth\_position\<close>

definition smooth_position :: "real \<Rightarrow> real option \<Rightarrow> real \<Rightarrow> real" where
  "smooth_position current previous alpha =
     (case previous of
        None \<Rightarrow> current
      | Some p \<Rightarrow> alpha * current + (1 - alpha) * p)"

subsection \<open>calibrate\_system\<close>

text \<open>
  The interactive part of the calibration is its input: whether the first frame could be
  read, what the click loop ended with (the operator pressed q, or two points were
  clicked), and what was typed as the real distance (\<open>None\<close> when \<open>float\<close> raises on it).
  The result is \<open>(px_per_meter, points[0][0])\<close>, or \<open>None\<close> for \<open>(None, None)\<close>.
\<close>

datatype click_outcome = Quit | Clicked "int \<times> int" "int \<times> int"

definition points_distance :: "int \<times> int \<Rightarrow> int \<times> int \<Rightarrow> real" where
  "points_distance p0 p1 =
     sqrt (real_of_int ((fst p1 - fst p0)\<^sup>2 + (snd p1 - snd p0)\<^sup>2))"

definition calibrate_system :: "bool \<Rightarrow> click_outcome \<Rightarrow> real option \<Rightarrow> (real \<times> int) option" where
  "calibrate_system ret clicks entered =
     (if \<not> ret then None
      else case clicks of
        Quit \<Rightarrow> None
      | Clicked p0 p1 \<Rightarrow>
          (let px_distance = points_distance p0 p1
           in case entered of
                None \<Rightarrow> None
              | Some real_distance \<Rightarrow>
                  if real_distance \<le> 0 then None
                  else Some (px_distance / real_distance, fst p0)))"

subsection \<open>run\_trial\<close>

text \<open>
  What the pose model gives for a frame: the left and the right ankle \<open>(x, y)\<close> of the
  first person, or \<open>None\<close> when it found no keypoints. \<open>get_ankle_position\<close> returns
  the forward ankle x and the mean y when all four coordinates are positive, \<open>None\<close>
  otherwise (the pixel positions it also returns are only drawn).
\<close>

type_synonym ankles = "(real \<times> real) \<times> (real \<times> real)"

definition get_ankle_position :: "ankles option \<Rightarrow> (real \<times> real) option" where
  "get_ankle_position results =
     (case results of
        None \<Rightarrow> None
      | Some (left, right) \<Rightarrow>
          if fst left > 0 \<and> snd left > 0 \<and> fst right > 0 \<and> snd right > 0
          then (let forward_x = max (fst left) (fst right);
                    avg_y = (snd left + snd right) / 2
                in Some (forward_x, avg_y))
          else None)"

text \<open>The x of the ankle data of a frame, which is all that the two loops of a trial use.\<close>

definition ankle_x :: "ankles option \<Rightarrow> real option" where
  "ankle_x results = map_option fst (get_ankle_position results)"

text \<open>
  A frame of the start-position phase is the x of its ankle data (\<open>None\<close> when
  \<open>get_ankle_position\<close> returns \<open>None\<close>) and whether q was pressed after it. The list
  holds the frames read before the 15 second timeout; frames that could not be read are
  skipped by the source and are not in the list.
\<close>

datatype start_outcome = StartQuit | StartTimedOut | StartFound real

fun detect_start :: "nat \<Rightarrow> real option \<Rightarrow> (real option \<times> bool) list \<Rightarrow> start_outcome" where
  "detect_start static_count prev_x [] = StartTimedOut"
| "detect_start static_count prev_x ((None, q) # frames) =
     (if q then StartQuit else detect_start 0 prev_x frames)"
| "detect_start static_count prev_x ((Some x, q) # frames) =
     (let static_count' =
            (case prev_x of
               None \<Rightarrow> static_count
             | Some p \<Rightarrow>
                 if \<bar>x - p\<bar> < STATIC_TOLERANCE_PX then static_count + 1
                 else static_count - 1)
      in if q then StartQuit
         else if static_count' \<ge> STATIC_FRAMES_REQUIRED then StartFound x
         else detect_start static_count' (Some x) frames)"

record tracker =
  took_off :: bool
  takeoff_x :: "real option"
  landing_x :: "real option"
  prev_smooth :: "real option"
  stable :: nat
  max_x :: real

text \<open>
  The tracking loop over the frames read within its 10 seconds (the list ends where the
  time is up or a read fails). A frame is the x of its ankle data, or \<open>None\<close>.
\<close>

fun track_jump :: "tracker \<Rightarrow> real option list \<Rightarrow> tracker" where
  "track_jump t [] = t"
| "track_jump t (None # frames) = track_jump t frames"
| "track_jump t (Some x # frames) =
     (let x_smooth = smooth_position x (prev_smooth t) 0.3;
          t1 = (if x_smooth > max_x t then t\<lparr>max_x := x_smooth\<rparr> else t)
      in case prev_smooth t1 of
           None \<Rightarrow> track_jump (t1\<lparr>prev_smooth := Some x_smooth\<rparr>) frames
         | Some p \<Rightarrow>
            (let velocity = x_smooth - p
             in if \<not> took_off t1 then
                  (let t2 = (if \<bar>velocity\<bar> > TAKEOFF_VELOCITY
                             then t1\<lparr>took_off := True, takeoff_x := Some p\<rparr> else t1)
                   in track_jump (t2\<lparr>prev_smooth := Some x_smooth\<rparr>) frames)
                else
                  (let t2 = (if \<bar>velocity\<bar> < LANDING_VELOCITY
                             then t1\<lparr>stable := stable t1 + 1\<rparr> else t1\<lparr>stable := 0\<rparr>)
                   in if stable t2 \<ge> LANDING_STABLE_FRAMES
                      then t2\<lparr>landing_x := Some (max_x t2)\<rparr>
                      else track_jump (t2\<lparr>prev_smooth := Some x_smooth\<rparr>) frames)))"

text \<open>
  What a trial receives: whether q was pressed while it waited for the space bar, and the
  pose results of the frames of the start-position phase (each with the key pressed
  after it) and of the tracking phase.
\<close>

record trial_input =
  quit_while_waiting :: bool
  start_frames :: "(ankles option \<times> bool) list"
  jump_frames :: "ankles option list"

definition initial_tracker :: "real \<Rightarrow> tracker" where
  "initial_tracker start_x =
     \<lparr>took_off = False, takeoff_x = None, landing_x = None, prev_smooth = None,
      stable = 0, max_x = start_x\<rparr>"

text \<open>Phase 1 and phase 3 of a trial, on the pose results the trial receives.\<close>

definition detect_start_position :: "trial_input \<Rightarrow> start_outcome" where
  "detect_start_position inp =
     detect_start 0 None (map (\<lambda>(results, q). (ankle_x results, q)) (start_frames inp))"

definition track_trial :: "trial_input \<Rightarrow> real \<Rightarrow> tracker" where
  "track_trial inp start_x =
     track_jump (initial_tracker start_x) (map ankle_x (jump_frames inp))"

definition run_trial :: "trial_input \<Rightarrow> real \<Rightarrow> int option \<Rightarrow> npfloat option" where
  "run_trial inp px_per_meter reference_x =
     (if quit_while_waiting inp then None
      else case detect_start_position inp of
        StartQuit \<Rightarrow> None
      | StartTimedOut \<Rightarrow> None
      | StartFound start_x \<Rightarrow>
          (let t = track_trial inp start_x
           in if \<not> took_off t then None
              else case landing_x t of
                None \<Rightarrow> None
              | Some lx \<Rightarrow>
                  (let start_pos = (case reference_x of
                                      Some r \<Rightarrow> real_of_int r
                                    | None \<Rightarrow> start_x);
                       px_distance = \<bar>lx - start_pos\<bar>;
                       distance_m = np_truediv px_distance px_per_meter
                   in if np_less distance_m (Fin 0.2) \<or> np_less (Fin 5.0) distance_m
                      then None
                      else Some distance_m)))"

subsection \<open>main\<close>

text \<open>Python's \<open>max\<close> keeps the first item and replaces it by a later one that is greater.\<close>

definition py_max :: "npfloat \<Rightarrow> npfloat list \<Rightarrow> npfloat" where
  "py_max x xs = foldl (\<lambda>m i. if np_less m i then i else m) x xs"

definition py_sum :: "npfloat list \<Rightarrow> npfloat" where
  "py_sum xs = foldl np_add (Fin 0) xs"

datatype report =
    CameraNotOpened
  | CalibrationFailed
  | NoValidJumps
  | FinalResults "npfloat list" npfloat npfloat

definition run_trials :: "real \<Rightarrow> int \<Rightarrow> (nat \<Rightarrow> trial_input) \<Rightarrow> npfloat list" where
  "run_trials px_per_meter reference_x inputs =
     List.map_filter (\<lambda>trial. run_trial (inputs trial) px_per_meter (Some reference_x))
       [1 ..< MAX_TRIALS + 1]"

definition final_results :: "npfloat list \<Rightarrow> report" where
  "final_results results =
     (case results of
        [] \<Rightarrow> NoValidJumps
      | r # rs \<Rightarrow> FinalResults results (py_max r rs) (np_div_count (py_sum results) (length results)))"

definition main :: "bool \<Rightarrow> bool \<Rightarrow> click_outcome \<Rightarrow> real option \<Rightarrow> (nat \<Rightarrow> trial_input) \<Rightarrow> report" where
  "main opened ret clicks entered inputs =
     (if \<not> opened then CameraNotOpened
      else case calibrate_system ret clicks entered of
        None \<Rightarrow> CalibrationFailed
      | Some (px_per_meter, reference_x) \<Rightarrow>
          final_results (run_trials px_per_meter reference_x inputs))"

text \<open>
  Inputs used in the examples below. \<open>feet_at x\<close> is a pose result with both ankles at
  pixel x. In every example the athlete stands still at pixel 100 for six frames.
\<close>

definition feet_at :: "real \<Rightarrow> ankles option" where
  "feet_at x = Some ((x, 400), (x, 400))"


text \<open>A jump towards smaller x, which never gets beyond the start position at pixel 100.\<close>

definition backward_jump :: trial_input where
  "backward_jump =
     \<lparr>quit_while_waiting = False,
      start_frames = replicate 6 (feet_at 100, False),
      jump_frames = map feet_at [100, 1, 70, 70, 70, 70]\<rparr>"

definition no_trial :: trial_input where
  "no_trial = \<lparr>quit_while_waiting = True, start_frames = [], jump_frames = []\<rparr>"

section \<open>Sit-up counter: situps\_complete.py\<close>

datatype rep_state = DOWN | UP

datatype phase =
  WELCOME | USER_INFO | CAMERA_SETUP | RULES | POSITION | COUNTDOWN | RUNNING | COMPLETE

text \<open>The rejection lines that \<open>show_running_test\<close> prints, one constructor per line.\<close>

datatype rejection =
    HeldDownTooBriefly
  | HeldUpTooBriefly
  | TookTooLong
  | InsufficientRange
  | NotBentEnough
  | NotLyingFlat

record situp_counter =
  test_duration :: real
  start_time :: real
  state :: rep_state
  rep_count :: nat
  current_angle :: real
  min_angle_in_cycle :: real
  max_angle_in_cycle :: real
  state_entry_time :: real
  down_hold_start :: "real option"
  UP_THRESHOLD :: real
  DOWN_THRESHOLD :: real
  MIN_RANGE :: real
  PERFECT_RANGE :: real
  MIN_HOLD_TIME :: real
  MAX_REP_TIME :: real
  phase :: phase
  last_body_warning :: real
  last_validation_voice :: real
  milestones_announced :: "string set"

text \<open>
  The counter as \<open>__init__\<close> builds it at clock reading \<open>t_init\<close> and as
  \<open>show_countdown\<close> starts it at clock reading \<open>t_go\<close> (phase \<open>RUNNING\<close>, \<open>start_time\<close>
  set; \<open>start_time\<close> is \<open>None\<close> before that and \<open>show_running_test\<close> runs only in
  phase \<open>RUNNING\<close>).
\<close>

definition running_counter :: "real \<Rightarrow> real \<Rightarrow> situp_counter" where
  "running_counter t_init t_go =
     \<lparr>test_duration = 30, start_time = t_go, state = DOWN, rep_count = 0,
      current_angle = 0, min_angle_in_cycle = 180, max_angle_in_cycle = 0,
      state_entry_time = t_init, down_hold_start = None,
      UP_THRESHOLD = 70, DOWN_THRESHOLD = 160, MIN_RANGE = 50, PERFECT_RANGE = 80,
      MIN_HOLD_TIME = 0.3, MAX_REP_TIME = 3.0,
      phase = RUNNING, last_body_warning = 0, last_validation_voice = 0,
      milestones_announced = {}\<rparr>"

text \<open>The throttled voice feedback of a rejection: only its timestamp is state.\<close>

definition validation_voice :: "situp_counter \<Rightarrow> real \<Rightarrow> situp_counter" where
  "validation_voice c current_time =
     (if current_time - last_validation_voice c > 2.0
      then c\<lparr>last_validation_voice := current_time\<rparr> else c)"

text \<open>The block every rejected repetition ends with.\<close>

definition reject_rep :: "situp_counter \<Rightarrow> real \<Rightarrow> situp_counter" where
  "reject_rep c current_time =
     (validation_voice c current_time)
       \<lparr>state := DOWN, state_entry_time := current_time,
        min_angle_in_cycle := 180, max_angle_in_cycle := 0\<rparr>"

definition down_hold_time :: "situp_counter \<Rightarrow> real \<Rightarrow> real" where
  "down_hold_time c current_time =
     (if state_entry_time c \<noteq> 0 then current_time - state_entry_time c else 0)"

definition time_management :: "situp_counter \<Rightarrow> real \<Rightarrow> situp_counter" where
  "time_management c t =
     (let elapsed = t - start_time c;
          remaining = max 0 (test_duration c - elapsed);
          c1 = (if remaining \<le> 15 \<and> ''15'' \<notin> milestones_announced c
                  then c\<lparr>milestones_announced := insert ''15'' (milestones_announced c)\<rparr>
                else if remaining \<le> 10 \<and> ''10'' \<notin> milestones_announced c
                  then c\<lparr>milestones_announced := insert ''10'' (milestones_announced c)\<rparr>
                else if remaining \<le> 5 \<and> ''5'' \<notin> milestones_announced c
                  then c\<lparr>milestones_announced := insert ''5'' (milestones_announced c)\<rparr>
                else c)
      in if remaining \<le> 0 then c1\<lparr>phase := COMPLETE\<rparr> else c1)"

text \<open>
  The first part of a frame of the running test: the transformed angle, the extremes of
  the cycle and the start of the current stay above the down threshold.
\<close>

definition track_angle :: "situp_counter \<Rightarrow> real \<Rightarrow> real \<Rightarrow> situp_counter" where
  "track_angle c raw_angle current_time =
     (let c1 = c\<lparr>current_angle := 180 - raw_angle + 40\<rparr>;
          c2 = c1\<lparr>min_angle_in_cycle := min (min_angle_in_cycle c1) (current_angle c1)\<rparr>;
          c3 = c2\<lparr>max_angle_in_cycle := max (max_angle_in_cycle c2) (current_angle c2)\<rparr>
      in if current_angle c3 > DOWN_THRESHOLD c3
         then (if down_hold_start c3 = None
               then c3\<lparr>down_hold_start := Some current_time\<rparr> else c3)
         else c3\<lparr>down_hold_start := None\<rparr>)"

text \<open>
  One frame of the running test. \<open>landmarks\<close> is the hip angle that \<open>calculate_angle\<close>
  returns for the frame (\<open>None\<close> when no body is seen), \<open>current_time\<close> the clock reading
  the state machine uses and \<open>later_time\<close> the reading of the time management. The
  result is the updated counter and the rejection lines printed for the frame.
\<close>

definition show_running_test ::
    "situp_counter \<Rightarrow> real option \<Rightarrow> real \<Rightarrow> real \<Rightarrow> situp_counter \<times> rejection list" where
  "show_running_test c landmarks current_time later_time =
     (case landmarks of
        None \<Rightarrow>
          ((if current_time - last_body_warning c > 3.0
            then c\<lparr>last_body_warning := current_time\<rparr> else c), [])
      | Some raw_angle \<Rightarrow>
          (let c4 = track_angle c raw_angle current_time;
               angle_range = max_angle_in_cycle c4 - min_angle_in_cycle c4
           in if state c4 = DOWN \<and> current_angle c4 < UP_THRESHOLD c4 then
                (if down_hold_time c4 current_time < MIN_HOLD_TIME c4
                 then (validation_voice c4 current_time, [HeldDownTooBriefly])
                 else (time_management
                         (c4\<lparr>state := UP, state_entry_time := current_time\<rparr>)
                         later_time, []))
              else if state c4 = UP \<and> current_angle c4 > DOWN_THRESHOLD c4 then
                (let time_in_up = current_time - state_entry_time c4;
                     total_rep_time = time_in_up
                 in if time_in_up < MIN_HOLD_TIME c4
                      then (reject_rep c4 current_time, [HeldUpTooBriefly])
                    else if total_rep_time > MAX_REP_TIME c4
                      then (reject_rep c4 current_time, [TookTooLong])
                    else if angle_range < MIN_RANGE c4
                      then (reject_rep c4 current_time, [InsufficientRange])
                    else if min_angle_in_cycle c4 \<ge> UP_THRESHOLD c4
                      then (reject_rep c4 current_time, [NotBentEnough])
                    else if max_angle_in_cycle c4 < DOWN_THRESHOLD c4
                      then (reject_rep c4 current_time, [NotLyingFlat])
                    else (time_management
                            (c4\<lparr>state := DOWN, state_entry_time := current_time,
                                rep_count := rep_count c4 + 1,
                                min_angle_in_cycle := 180, max_angle_in_cycle := 0\<rparr>)
                            later_time, []))
              else (time_management c4 later_time, [])))"

text \<open>
  \<open>process_frame\<close> hands a frame to \<open>show_running_test\<close> while the phase is \<open>RUNNING\<close>;
  once the phase is \<open>COMPLETE\<close> the frames go to the results screen, which leaves the
  repetition state alone. A frame is \<open>(landmarks, current_time, later_time)\<close>.
\<close>

fun run_frames :: "situp_counter \<Rightarrow> (real option \<times> real \<times> real) list \<Rightarrow> situp_counter" where
  "run_frames c [] = c"
| "run_frames c ((landmarks, current_time, later_time) # frames) =
     (if phase c = RUNNING
      then run_frames (fst (show_running_test c landmarks current_time later_time)) frames
      else c)"


text \<open>A counter whose configured minimum range is stricter than the built-in one.\<close>

definition strict_range_counter :: situp_counter where
  "strict_range_counter = (running_counter 50 90)\<lparr>MIN_RANGE := 200\<rparr>"

section \<open>Shuttle run: shuttle\_run\_analyzer.py\<close>



section \<open>Sit and reach: sit\_reach\_test.py\<close>

text \<open>Python's \<open>int\<close> on a float truncates towards zero.\<close>

definition py_int :: "real \<Rightarrow> int" where
  "py_int r = (if 0 \<le> r then \<lfloor>r\<rfloor> else \<lceil>r\<rceil>)"

datatype test_state =
    SR_SETUP_GUIDE | SR_CALIBRATION | SR_RULER_CALIBRATION | SR_READY
  | SR_COUNTDOWN | SR_MEASURING | SR_ATTEMPT_RESULT | SR_COMPLETE

datatype calibration_method = ARUCO | RULER | AUTO

text \<open>
  The attributes of \<open>SitReachTest\<close> that calibration, baseline detection and the course
  of the attempts read or write. \<open>baseline_locked\<close>, \<open>auto_calibrated\<close> and
  \<open>ready_started\<close> are attributes that do not exist until they are set to \<open>True\<close>; they
  are only read through \<open>hasattr\<close>, so \<open>False\<close> stands for the missing attribute.
  \<open>baseline_samples\<close>, \<open>attempt_start_time\<close> and \<open>hold_start_time\<close> are \<open>None\<close> while
  the attribute is missing. \<open>countdown_start\<close> and \<open>result_show_time\<close> are written
  before the state that reads them is entered. \<open>attempts\<close> holds the \<open>reach_cm\<close> of
  every recorded attempt.
\<close>

record sit_reach =
  aruco_marker_size_cm :: real
  pixels_per_cm :: real
  is_calibrated :: bool
  calibration_method :: "calibration_method option"
  auto_calibrated :: bool
  baseline_x :: "int option"
  baseline_y :: "int option"
  baseline_samples :: "int list option"
  baseline_locked :: bool
  test_state :: test_state
  attempts :: "real list"
  current_attempt :: nat
  max_attempts :: nat
  max_reach_cm :: real
  hold_start_time :: "real option"
  ready_started :: bool
  countdown_start :: real
  attempt_start_time :: "real option"
  result_show_time :: real

definition init_sit_reach :: sit_reach where
  "init_sit_reach =
     \<lparr>aruco_marker_size_cm = 20.0, pixels_per_cm = 4.0, is_calibrated = True,
      calibration_method = None, auto_calibrated = False,
      baseline_x = None, baseline_y = None, baseline_samples = None, baseline_locked = False,
      test_state = SR_READY, attempts = [], current_attempt = 0, max_attempts = 3,
      max_reach_cm = 0, hold_start_time = None, ready_started = False,
      countdown_start = 0, attempt_start_time = None, result_show_time = 0\<rparr>"



text \<open>
  The YOLO keypoints the test reads, each \<open>(x, y, confidence)\<close>; the whole set is \<open>None\<close>
  when \<open>keypoints\<close> is \<open>None\<close> or has fewer than 17 entries.
\<close>

record yolo_keypoints =
  left_hip :: "real \<times> real \<times> real"
  right_hip :: "real \<times> real \<times> real"
  left_ankle :: "real \<times> real \<times> real"
  right_ankle :: "real \<times> real \<times> real"

definition kp_x :: "real \<times> real \<times> real \<Rightarrow> real" where "kp_x p = fst p"
definition kp_y :: "real \<times> real \<times> real \<Rightarrow> real" where "kp_y p = fst (snd p)"
definition kp_conf :: "real \<times> real \<times> real \<Rightarrow> real" where "kp_conf p = snd (snd p)"

definition calibrate_with_standard_box :: "sit_reach \<Rightarrow> yolo_keypoints option \<Rightarrow> sit_reach \<times> bool" where
  "calibrate_with_standard_box s keypoints =
     (case keypoints of
        None \<Rightarrow> (s, False)
      | Some k \<Rightarrow>
          if kp_conf (left_hip k) > 0.5 \<and> kp_conf (right_hip k) > 0.5
             \<and> kp_conf (left_ankle k) > 0.5 \<and> kp_conf (right_ankle k) > 0.5
          then (let hip_y = (kp_y (left_hip k) + kp_y (right_hip k)) / 2;
                    ankle_y = (kp_y (left_ankle k) + kp_y (right_ankle k)) / 2;
                    hip_to_ankle_px = \<bar>hip_y - ankle_y\<bar>
                in if hip_to_ankle_px > 100
                   then (s\<lparr>pixels_per_cm := hip_to_ankle_px / 52.0,
                            calibration_method := Some AUTO, is_calibrated := True,
                            auto_calibrated := True\<rparr>, True)
                   else (s, False))
          else (s, False))"

text \<open>A BlazePose landmark, in normalised coordinates.\<close>

record landmark =
  lm_x :: real
  lm_y :: real
  visibility :: real

text \<open>The sample taken on a frame, and the lock after ten of them.\<close>

definition add_baseline_sample :: "sit_reach \<Rightarrow> int \<Rightarrow> sit_reach" where
  "add_baseline_sample s x =
     (let samples = (case baseline_samples s of None \<Rightarrow> [] | Some xs \<Rightarrow> xs) @ [x];
          s1 = s\<lparr>baseline_samples := Some samples\<rparr>
      in if length samples \<ge> 10
         then s1\<lparr>baseline_x :=
                    Some (py_int (real_of_int (sum_list samples) / real (length samples))),
                 baseline_locked := True\<rparr>
         else s1)"

text \<open>
  \<open>detect_box_baseline\<close>: \<open>blazepose_landmarks\<close> holds the left and right foot index
  landmarks, \<open>None\<close> when BlazePose found no body.
\<close>

definition detect_box_baseline ::
    "sit_reach \<Rightarrow> yolo_keypoints option \<Rightarrow> (landmark \<times> landmark) option \<Rightarrow> real \<Rightarrow> sit_reach \<times> bool" where
  "detect_box_baseline s keypoints blazepose_landmarks frame_w =
     (if baseline_locked s then (s, True)
      else
        (let yolo_fallback =
               (case keypoints of
                  None \<Rightarrow> (s, False)
                | Some k \<Rightarrow>
                    (let la = left_ankle k; ra = right_ankle k
                     in if kp_conf la > 0.4 \<or> kp_conf ra > 0.4 then
                          (let (bx, by) =
                                 (if kp_conf la > 0.4 \<and> kp_conf ra > 0.4
                                    then (py_int (max (kp_x la) (kp_x ra)),
                                          py_int ((kp_y la + kp_y ra) / 2))
                                  else if kp_conf la > 0.4
                                    then (py_int (kp_x la), py_int (kp_y la))
                                  else (py_int (kp_x ra), py_int (kp_y ra)))
                           in (add_baseline_sample
                                 (s\<lparr>baseline_x := Some bx, baseline_y := Some by\<rparr>) bx, True))
                        else (s, False)))
         in case blazepose_landmarks of
              None \<Rightarrow> yolo_fallback
            | Some (left_foot_index, right_foot_index) \<Rightarrow>
                if visibility left_foot_index > 0.5 \<or> visibility right_foot_index > 0.5 then
                  (let frame_h = 480;
                       (bx, by) =
                         (if visibility left_foot_index > 0.5 \<and> visibility right_foot_index > 0.5
                            then (let left_x = py_int (lm_x left_foot_index * frame_w);
                                      right_x = py_int (lm_x right_foot_index * frame_w)
                                  in (max left_x right_x,
                                      if left_x > right_x
                                      then py_int (lm_y left_foot_index * frame_h)
                                      else py_int (lm_y right_foot_index * frame_h)))
                          else if visibility left_foot_index > 0.5
                            then (py_int (lm_x left_foot_index * frame_w),
                                  py_int (lm_y left_foot_index * frame_h))
                          else (py_int (lm_x right_foot_index * frame_w),
                                py_int (lm_y right_foot_index * frame_h)))
                   in (add_baseline_sample
                         (s\<lparr>baseline_x := Some bx, baseline_y := Some by\<rparr>) bx, True))
                else yolo_fallback))"

text \<open>
  \<open>measure_reach\<close> and \<open>measure_reach_blazepose\<close>: the horizontal distance of the
  fingertips from the baseline, in cm. \<open>fingertip_x\<close> is the pixel x the pose model gives
  for the hands, \<open>None\<close> when the model does not see them with enough confidence (both
  functions then return 0). \<open>pixels_per_cm\<close> is positive in every state the test reaches
  (4.0 from \<open>__init__\<close>, above 100 / 52 from the automatic calibration).
\<close>

definition measure_reach :: "sit_reach \<Rightarrow> real option \<Rightarrow> real" where
  "measure_reach s fingertip_x =
     (if \<not> is_calibrated s then 0
      else case baseline_x s of
        None \<Rightarrow> 0
      | Some b \<Rightarrow>
          (case fingertip_x of
             None \<Rightarrow> 0
           | Some x \<Rightarrow> (let reach_px = x - real_of_int b in reach_px / pixels_per_cm s)))"

definition measure_reach_blazepose :: "sit_reach \<Rightarrow> real option \<Rightarrow> real" where
  "measure_reach_blazepose s fingertip_x =
     (if \<not> is_calibrated s then 0
      else case baseline_x s of
        None \<Rightarrow> 0
      | Some b \<Rightarrow>
          (case fingertip_x of
             None \<Rightarrow> 0
           | Some x \<Rightarrow> (let reach_px = x - real_of_int b in reach_px / pixels_per_cm s)))"

text \<open>
  What one pass of the loop of \<open>run_test\<close> sees: the YOLO keypoints, the BlazePose foot
  index landmarks, the frame width, the verdict of \<open>check_starting_position\<close> on the
  keypoints, the fingertip positions of the two models, and the clock.
\<close>

record frame_obs =
  obs_keypoints :: "yolo_keypoints option"
  obs_blazepose :: "(landmark \<times> landmark) option"
  obs_frame_w :: real
  position_ok :: bool
  yolo_fingertip_x :: "real option"
  blaze_fingertip_x :: "real option"
  now :: real

text \<open>State \<open>READY\<close>: the baseline is detected on every frame, and the countdown starts on
  the first frame on which a baseline was detected and the position is correct.\<close>

definition ready_frame :: "sit_reach \<Rightarrow> frame_obs \<Rightarrow> sit_reach" where
  "ready_frame s f =
     (let (s1, baseline_detected) =
            detect_box_baseline s (obs_keypoints f) (obs_blazepose f) (obs_frame_w f)
      in if baseline_detected then
           (if position_ok f then
              (if \<not> ready_started s1
               then s1\<lparr>ready_started := True, test_state := SR_COUNTDOWN,
                       countdown_start := now f, max_reach_cm := 0, hold_start_time := None\<rparr>
               else s1)
            else s1\<lparr>ready_started := False\<rparr>)
         else s1\<lparr>ready_started := False\<rparr>)"

definition countdown_frame :: "sit_reach \<Rightarrow> frame_obs \<Rightarrow> sit_reach" where
  "countdown_frame s f =
     (let elapsed = now f - countdown_start s;
          countdown = 3 - py_int elapsed
      in if countdown > 0 then s else s\<lparr>test_state := SR_MEASURING\<rparr>)"

definition measuring_frame :: "sit_reach \<Rightarrow> frame_obs \<Rightarrow> sit_reach" where
  "measuring_frame s f =
     (let started = (case attempt_start_time s of None \<Rightarrow> now f | Some t \<Rightarrow> t);
          s1 = s\<lparr>attempt_start_time := Some started\<rparr>;
          elapsed = now f - started;
          remaining = 5.0 - elapsed;
          reach_yolo = measure_reach s1 (yolo_fingertip_x f);
          reach_blazepose = measure_reach_blazepose s1 (blaze_fingertip_x f);
          reach_cm = (if reach_yolo > 0 \<and> reach_blazepose > 0
                        then reach_yolo * 0.45 + reach_blazepose * 0.55
                      else if reach_yolo > 0 then reach_yolo
                      else if reach_blazepose > 0 then reach_blazepose
                      else 0);
          s2 = (if reach_cm > max_reach_cm s1 then s1\<lparr>max_reach_cm := reach_cm\<rparr> else s1)
      in if remaining \<le> 0 then
           (let s3 = s2\<lparr>attempts := attempts s2 @ [max_reach_cm s2],
                         current_attempt := current_attempt s2 + 1\<rparr>
            in if current_attempt s3 \<ge> max_attempts s3
               then s3\<lparr>test_state := SR_COMPLETE\<rparr>
               else s3\<lparr>test_state := SR_ATTEMPT_RESULT, result_show_time := now f\<rparr>)
         else s2)"

text \<open>
  The end of the rest between two attempts (\<open>ATTEMPT_RESULT\<close> back to \<open>READY\<close>): the
  attempt's own attributes are deleted, the baseline attributes are not touched.
\<close>

definition next_attempt :: "sit_reach \<Rightarrow> sit_reach" where
  "next_attempt s =
     s\<lparr>test_state := SR_READY, max_reach_cm := 0, ready_started := False,
       attempt_start_time := None, hold_start_time := None\<rparr>"

definition attempt_result_frame :: "sit_reach \<Rightarrow> frame_obs \<Rightarrow> sit_reach" where
  "attempt_result_frame s f =
     (let elapsed = now f - result_show_time s;
          remaining = 5 - py_int elapsed
      in if remaining > 0 then s else next_attempt s)"

text \<open>
  One pass of the loop of \<open>run_test\<close>: the automatic calibration in the background, then
  the branch of the current state. The states \<open>SETUP_GUIDE\<close>, \<open>CALIBRATION\<close> and
  \<open>RULER_CALIBRATION\<close> are never entered (the test starts in \<open>READY\<close>), and \<open>COMPLETE\<close>
  only shows the results.
\<close>

definition run_test_frame :: "sit_reach \<Rightarrow> frame_obs \<Rightarrow> sit_reach" where
  "run_test_frame s f =
     (let s0 = (case obs_keypoints f of
                  None \<Rightarrow> s
                | Some k \<Rightarrow> fst (calibrate_with_standard_box s (Some k)))
      in case test_state s0 of
           SR_READY \<Rightarrow> ready_frame s0 f
         | SR_COUNTDOWN \<Rightarrow> countdown_frame s0 f
         | SR_MEASURING \<Rightarrow> measuring_frame s0 f
         | SR_ATTEMPT_RESULT \<Rightarrow> attempt_result_frame s0 f
         | _ \<Rightarrow> s0)"

definition run_test :: "sit_reach \<Rightarrow> frame_obs list \<Rightarrow> sit_reach" where
  "run_test s frames = foldl run_test_frame s frames"

text \<open>
  Example frames. The athlete sits with straight legs (hips and ankles at the same
  height), so the automatic calibration leaves the default scale of 4 px/cm.
\<close>

definition sitting :: yolo_keypoints where
  "sitting =
     \<lparr>left_hip = (200, 400, 0.9), right_hip = (200, 400, 0.9),
      left_ankle = (320, 400, 0.9), right_ankle = (320, 400, 0.9)\<rparr>"

text \<open>A frame with both toes visible, the front one at normalised x, in a correct position.\<close>

definition toes_at :: "real \<Rightarrow> real \<Rightarrow> frame_obs" where
  "toes_at x t =
     \<lparr>obs_keypoints = Some sitting,
      obs_blazepose = Some (\<lparr>lm_x = x, lm_y = 0.5, visibility = 0.9\<rparr>,
                            \<lparr>lm_x = x - 0.1, lm_y = 0.5, visibility = 0.9\<rparr>),
      obs_frame_w = 640, position_ok = True,
      yolo_fingertip_x = None, blaze_fingertip_x = None, now = t\<rparr>"

text \<open>A frame with the toes visible but the position not yet correct.\<close>

definition settling_at :: "real \<Rightarrow> real \<Rightarrow> frame_obs" where
  "settling_at x t = (toes_at x t)\<lparr>position_ok := False\<rparr>"

text \<open>A frame on which only the hands are seen, the fingertips at pixel x.\<close>

definition hands_at :: "real \<Rightarrow> real \<Rightarrow> frame_obs" where
  "hands_at x t =
     \<lparr>obs_keypoints = Some sitting, obs_blazepose = None, obs_frame_w = 640,
      position_ok = True, yolo_fingertip_x = Some x, blaze_fingertip_x = None, now = t\<rparr>"

text \<open>
  A first attempt that starts on the first frame (toes at pixel 320) and reaches pixel 400,
  and a second attempt with the toes seen at pixel 512 and the same reach.
\<close>

definition first_attempt :: "frame_obs list" where
  "first_attempt =
     [toes_at 0.5 0, hands_at 400 3, hands_at 400 3.1, hands_at 400 8.2, hands_at 400 13.3]"

definition second_attempt :: "frame_obs list" where
  "second_attempt =
     [toes_at 0.8 13.4, hands_at 400 16.5, hands_at 400 16.6, hands_at 400 21.7]"

text \<open>The counter after one frame that takes it from \<open>DOWN\<close> to \<open>UP\<close> at time 100.\<close>

definition up_counter :: situp_counter where
  "up_counter = fst (show_running_test strict_range_counter (Some 160) 100 100)"

text \<open>A test whose baseline was locked by ten frames with the toes in view.\<close>

definition locked_test :: sit_reach where
  "locked_test = run_test init_sit_reach (map (settling_at 0.5) [0, 1, 2, 3, 4, 5, 6, 7, 8, 9])"

section \<open>Properties of the broad jump test\<close>

lemma points_distance_pos: "p0 \<noteq> p1 \<Longrightarrow> 0 < points_distance p0 p1"
proof -
  assume "p0 \<noteq> p1"
  then have "fst p1 - fst p0 \<noteq> 0 \<or> snd p1 - snd p0 \<noteq> 0"
    by (auto simp: prod_eq_iff)
  then have "0 < (fst p1 - fst p0)\<^sup>2 + (snd p1 - snd p0)\<^sup>2"
    by (simp add: sum_power2_gt_zero_iff)
  then have "0 < real_of_int ((fst p1 - fst p0)\<^sup>2 + (snd p1 - snd p0)\<^sup>2)"
    by (simp only: of_int_0_less_iff)
  then show ?thesis by (simp only: points_distance_def real_sqrt_gt_0_iff)
qed

lemma calibrate_system_success:
  "calibrate_system ret clicks entered = Some (s, r) \<longleftrightarrow>
     ret \<and> (\<exists>p0 p1 d. clicks = Clicked p0 p1 \<and> entered = Some d \<and> 0 < d
                \<and> s = points_distance p0 p1 / d \<and> r = fst p0)"
  by (auto simp: calibrate_system_def Let_def split: click_outcome.splits option.splits)






text \<open>
  C6. With no previous smoothed value (the first valid frame) the smoothed position is the
  raw one; with a previous value it is \<open>alpha * raw + (1 - alpha) * prev_smoothed\<close>.
\<close>

theorem smooth_position_contract:
  "smooth_position raw None alpha = raw
   \<and> smooth_position raw (Some prev_smoothed) alpha = alpha * raw + (1 - alpha) * prev_smoothed"
  by (simp add: smooth_position_def)

lemma final_results_none: "final_results results = NoValidJumps \<longleftrightarrow> results = []"
  by (simp add: final_results_def split: list.splits)

lemma map_filter_all_none: "(\<forall>x \<in> set xs. f x = None) \<Longrightarrow> List.map_filter f xs = []"
  by (induction xs) (simp_all add: List.map_filter_simps)

text \<open>
  C5. When the calibration succeeds and none of the trials returns a distance, the session
  ends with the explicit report that no valid jump was recorded, which carries no best
  and no average value.
\<close>

theorem empty_session_no_result:
  assumes "calibrate_system ret clicks entered = Some (px_per_meter, reference_x)"
    and "\<forall>trial \<in> {1 .. MAX_TRIALS}. run_trial (inputs trial) px_per_meter (Some reference_x) = None"
  shows "main True ret clicks entered inputs = NoValidJumps"
proof -
  have "run_trials px_per_meter reference_x inputs = []"
    unfolding run_trials_def using assms(2) by (intro map_filter_all_none) auto
  then show ?thesis using assms(1) by (simp add: main_def final_results_def)
qed

theorem empty_session_no_result_witness:
  "main True True (Clicked (100, 300) (600, 300)) (Some 1) (\<lambda>_. no_trial) = NoValidJumps"
proof -
  have c: "calibrate_system True (Clicked (100, 300) (600, 300)) (Some 1) = Some (500, 100)"
    by (simp add: calibrate_system_def points_distance_def)
  have t: "\<forall>trial \<in> {1 .. MAX_TRIALS}. run_trial ((\<lambda>_. no_trial) trial) 500 (Some 100) = None"
    by (simp add: run_trial_def no_trial_def)
  show ?thesis using empty_session_no_result[OF c t] .
qed

lemma calibrate_system_scale_pos:
  "calibrate_system ret (Clicked p0 p1) entered = Some (s, r) \<Longrightarrow> p0 \<noteq> p1 \<Longrightarrow> 0 < s"
  using points_distance_pos[of p0 p1] by (auto simp: calibrate_system_success)

text \<open>
  C8. A calibration whose two clicks fall on the same pixel succeeds with the scale 0:
  only the entered distance is checked, not the pixel distance.
\<close>

theorem calibrate_system_zero_scale:
  "calibrate_system True (Clicked (100, 200) (100, 200)) (Some 1) = Some (0, 100)"
  by (simp add: calibrate_system_def points_distance_def)

lemma run_trial_passed_gate:
  "run_trial inp px_per_meter reference_x = Some d \<Longrightarrow>
     \<not> np_less d (Fin 0.2) \<and> \<not> np_less (Fin 5.0) d"
  by (auto simp: run_trial_def Let_def split: if_splits start_outcome.splits option.splits)

lemma run_trial_in_range:
  assumes "run_trial inp px_per_meter reference_x = Some d" and "px_per_meter \<noteq> 0"
  shows "\<exists>v. d = Fin v \<and> 0.2 \<le> v \<and> v \<le> 5.0"
  using assms
  by (auto simp: run_trial_def Let_def np_truediv_def
           split: if_splits start_outcome.splits option.splits)

lemma backward_jump_nan: "run_trial backward_jump 0 (Some 100) = Some NaN"
  by code_simp

text \<open>
  C10. With the scale 0 of a calibration on coincident clicks, a trial whose landing
  position equals the reference x has the distance 0 / 0, which is not a number: it is
  neither below 0.2 nor above 5.0, passes the gate and is reported among the results.
\<close>

theorem plausibility_gate_admits_nan:
  "main True True (Clicked (100, 200) (100, 200)) (Some 1) (\<lambda>_. backward_jump)
     = FinalResults [NaN, NaN, NaN] NaN NaN"
proof -
  have c: "calibrate_system True (Clicked (100, 200) (100, 200)) (Some 1) = Some (0, 100)"
    by (simp add: calibrate_system_def points_distance_def)
  have "run_trials 0 100 (\<lambda>_. backward_jump) = [NaN, NaN, NaN]"
    by (simp add: run_trials_def MAX_TRIALS_def backward_jump_nan List.map_filter_simps upt_rec)
  then show ?thesis using c
    by (simp add: main_def final_results_def py_max_def py_sum_def)
qed

section \<open>Properties of the sit-up counter\<close>

lemma time_management_keeps:
  "state (time_management c t) = state c"
  "rep_count (time_management c t) = rep_count c"
  "state_entry_time (time_management c t) = state_entry_time c"
  "MIN_HOLD_TIME (time_management c t) = MIN_HOLD_TIME c"
  by (simp_all add: time_management_def Let_def)

lemma validation_voice_keeps:
  "state (validation_voice c t) = state c"
  "rep_count (validation_voice c t) = rep_count c"
  "state_entry_time (validation_voice c t) = state_entry_time c"
  "MIN_HOLD_TIME (validation_voice c t) = MIN_HOLD_TIME c"
  by (simp_all add: validation_voice_def)

lemma reject_rep_keeps:
  "state (reject_rep c t) = DOWN"
  "rep_count (reject_rep c t) = rep_count c"
  by (simp_all add: reject_rep_def validation_voice_def)

lemma track_angle_fields:
  "state (track_angle c r t) = state c"
  "rep_count (track_angle c r t) = rep_count c"
  "state_entry_time (track_angle c r t) = state_entry_time c"
  "current_angle (track_angle c r t) = 180 - r + 40"
  "min_angle_in_cycle (track_angle c r t) = min (min_angle_in_cycle c) (180 - r + 40)"
  "max_angle_in_cycle (track_angle c r t) = max (max_angle_in_cycle c) (180 - r + 40)"
  "UP_THRESHOLD (track_angle c r t) = UP_THRESHOLD c"
  "DOWN_THRESHOLD (track_angle c r t) = DOWN_THRESHOLD c"
  "MIN_RANGE (track_angle c r t) = MIN_RANGE c"
  "MIN_HOLD_TIME (track_angle c r t) = MIN_HOLD_TIME c"
  "MAX_REP_TIME (track_angle c r t) = MAX_REP_TIME c"
  by (simp_all add: track_angle_def Let_def)

lemma down_hold_time_track_angle:
  "down_hold_time (track_angle c r t) t' = down_hold_time c t'"
  by (simp add: down_hold_time_def track_angle_fields)



lemma down_step:
  assumes "state c = DOWN" and "down_hold_time c t < MIN_HOLD_TIME c"
  shows "state (fst (show_running_test c lm t t')) = DOWN
       \<and> rep_count (fst (show_running_test c lm t t')) = rep_count c
       \<and> state_entry_time (fst (show_running_test c lm t t')) = state_entry_time c
       \<and> MIN_HOLD_TIME (fst (show_running_test c lm t t')) = MIN_HOLD_TIME c"
proof (cases lm)
  case None
  then show ?thesis using assms by (simp add: show_running_test_def)
next
  case (Some r)
  then show ?thesis using assms
    by (simp add: show_running_test_def Let_def track_angle_fields down_hold_time_track_angle
          time_management_keeps validation_voice_keeps)
qed

lemma up_counter_fields:
  "state up_counter = UP"
  "rep_count up_counter = 0"
  "state_entry_time up_counter = 100"
  "min_angle_in_cycle up_counter = 60"
  "max_angle_in_cycle up_counter = 60"
  "MIN_RANGE up_counter = 200"
  "MIN_HOLD_TIME up_counter = 0.3"
  "DOWN_THRESHOLD up_counter = 160"
  by code_simp+

text \<open>
  C1, as stated, fails: the hold time is measured from the entry into the current state,
  not from the moment the signal crossed the threshold. A counter that has been \<open>DOWN\<close>
  for 50 seconds and sees the angle below the up threshold at times 100 and 100.05 and
  back above it at 100.1 (a crossing of 0.1 s, under the hold time of 0.3 s) has fired the
  transition and is in \<open>UP\<close> after the window.
\<close>

theorem debounce_counterexample:
  "state (running_counter 50 90) = DOWN
   \<and> 100.1 - 100 < MIN_HOLD_TIME (running_counter 50 90)
   \<and> state (run_frames (running_counter 50 90)
        [(Some 160, 100, 100), (Some 160, 100.05, 100.05), (Some 120, 100.1, 100.1)]) = UP"
  by code_simp

lemma down_frames_keep_state:
  assumes "state c = DOWN"
    and "\<forall>f \<in> set frames. down_hold_time c (fst (snd f)) < MIN_HOLD_TIME c"
  shows "state (run_frames c frames) = DOWN
       \<and> rep_count (run_frames c frames) = rep_count c
       \<and> state_entry_time (run_frames c frames) = state_entry_time c"
  using assms
proof (induction frames arbitrary: c)
  case Nil
  then show ?case by simp
next
  case (Cons f frames)
  obtain lm t t' where f: "f = (lm, t, t')" by (cases f) auto
  show ?case
  proof (cases "phase c = RUNNING")
    case False
    then show ?thesis using Cons.prems f by simp
  next
    case True
    let ?c = "fst (show_running_test c lm t t')"
    have h: "down_hold_time c t < MIN_HOLD_TIME c" using Cons.prems(2) f by simp
    note s = down_step[OF Cons.prems(1) h, of lm t']
    have e: "down_hold_time ?c x = down_hold_time c x" for x
      using s by (simp add: down_hold_time_def)
    have "\<forall>g \<in> set frames. down_hold_time ?c (fst (snd g)) < MIN_HOLD_TIME ?c"
      using Cons.prems(2) s by (simp add: e)
    with s have "state (run_frames ?c frames) = DOWN
       \<and> rep_count (run_frames ?c frames) = rep_count ?c
       \<and> state_entry_time (run_frames ?c frames) = state_entry_time ?c"
      by (intro Cons.IH) simp_all
    then show ?thesis using s True f by simp
  qed
qed

lemma early_down_crossing:
  assumes "state u = UP" and "DOWN_THRESHOLD u < 180 - raw_angle + 40"
    and "current_time - state_entry_time u < MIN_HOLD_TIME u"
  shows "state (fst (show_running_test u (Some raw_angle) current_time later_time)) = DOWN
       \<and> rep_count (fst (show_running_test u (Some raw_angle) current_time later_time)) = rep_count u"
  using assms
  by (simp add: show_running_test_def Let_def track_angle_fields reject_rep_keeps)

text \<open>
  C1, amended. The hold time is measured from the entry into the current state. While the
  counter is \<open>DOWN\<close>, frames that arrive fewer than \<open>MIN_HOLD_TIME\<close> seconds after the
  entry into \<open>DOWN\<close> fire no transition, whatever the signal does: after them the state
  is \<open>DOWN\<close>, entered at the same time, with the same repetition count. In \<open>UP\<close>, a
  down-crossing that arrives fewer than \<open>MIN_HOLD_TIME\<close> seconds after the entry into
  \<open>UP\<close> counts no repetition, but it does return the counter to \<open>DOWN\<close>.
\<close>

theorem debounce_from_state_entry:
  "(state c = DOWN
      \<and> (\<forall>f \<in> set frames. down_hold_time c (fst (snd f)) < MIN_HOLD_TIME c)
    \<longrightarrow> state (run_frames c frames) = DOWN
        \<and> rep_count (run_frames c frames) = rep_count c
        \<and> state_entry_time (run_frames c frames) = state_entry_time c)
   \<and> (state u = UP \<and> DOWN_THRESHOLD u < 180 - raw_angle + 40
      \<and> current_time - state_entry_time u < MIN_HOLD_TIME u
    \<longrightarrow> state (fst (show_running_test u (Some raw_angle) current_time later_time)) = DOWN
        \<and> rep_count (fst (show_running_test u (Some raw_angle) current_time later_time))
            = rep_count u)"
  using down_frames_keep_state[of c frames]
    early_down_crossing[of u raw_angle current_time later_time]
  by blast

theorem debounce_from_state_entry_witness:
  "state (running_counter 100 100) = DOWN
   \<and> state (run_frames (running_counter 100 100)
        [(Some 160, 100.1, 100.1), (Some 160, 100.2, 100.2), (Some 120, 100.25, 100.25)]) = DOWN
   \<and> rep_count (run_frames (running_counter 100 100)
        [(Some 160, 100.1, 100.1), (Some 160, 100.2, 100.2), (Some 120, 100.25, 100.25)]) = 0
   \<and> state up_counter = UP
   \<and> state (fst (show_running_test up_counter (Some 50) 100.1 100.1)) = DOWN
   \<and> rep_count (fst (show_running_test up_counter (Some 50) 100.1 100.1)) = 0"
proof -
  let ?fs = "[(Some 160, 100.1, 100.1), (Some 160, 100.2, 100.2), (Some 120, 100.25, 100.25)]
               :: (real option \<times> real \<times> real) list"
  have a: "state (running_counter 100 100) = DOWN"
    by (simp add: running_counter_def)
  have b: "\<forall>f \<in> set ?fs.
             down_hold_time (running_counter 100 100) (fst (snd f))
               < MIN_HOLD_TIME (running_counter 100 100)"
    by (simp add: running_counter_def down_hold_time_def)
  have c: "state up_counter = UP" by (rule up_counter_fields)
  have d: "DOWN_THRESHOLD up_counter < 180 - 50 + 40" by (simp add: up_counter_fields)
  have e: "100.1 - state_entry_time up_counter < MIN_HOLD_TIME up_counter"
    by (simp add: up_counter_fields)
  have r: "rep_count (running_counter 100 100) = 0" by (simp add: running_counter_def)
  have r': "rep_count up_counter = 0" by (rule up_counter_fields)
  note w = debounce_from_state_entry[of "running_counter 100 100" ?fs up_counter 50 "100.1" "100.1"]
  have w1: "state (run_frames (running_counter 100 100) ?fs) = DOWN
        \<and> rep_count (run_frames (running_counter 100 100) ?fs) = rep_count (running_counter 100 100)"
    using w a b by blast
  have w2: "state (fst (show_running_test up_counter (Some 50) 100.1 100.1)) = DOWN
        \<and> rep_count (fst (show_running_test up_counter (Some 50) 100.1 100.1)) = rep_count up_counter"
    using w c d e by blast
  show ?thesis using w1 w2 a c by (simp only: r r')
qed










text \<open>
  C3. Whenever the range of the angle observed in the cycle, the current frame included,
  is below \<open>MIN_RANGE\<close>, the frame does not count a repetition, whatever the state, the
  times and the other thresholds are; and when the frame is a candidate repetition (the
  counter is \<open>UP\<close> and the angle is above the down threshold) a rejection is reported.
\<close>

theorem no_false_completion:
  assumes "max (max_angle_in_cycle c) (180 - raw_angle + 40)
             - min (min_angle_in_cycle c) (180 - raw_angle + 40) < MIN_RANGE c"
  shows "rep_count (fst (show_running_test c (Some raw_angle) current_time later_time)) = rep_count c
       \<and> (state c = UP \<and> DOWN_THRESHOLD c < 180 - raw_angle + 40
          \<longrightarrow> snd (show_running_test c (Some raw_angle) current_time later_time) \<noteq> [])"
  using assms
  by (simp add: show_running_test_def Let_def track_angle_fields time_management_keeps
        validation_voice_keeps reject_rep_keeps)

theorem no_false_completion_witness:
  "max (max_angle_in_cycle up_counter) (180 - 50 + 40)
       - min (min_angle_in_cycle up_counter) (180 - 50 + 40) < MIN_RANGE up_counter
   \<and> state up_counter = UP \<and> DOWN_THRESHOLD up_counter < 180 - 50 + 40
   \<and> rep_count (fst (show_running_test up_counter (Some 50) 102 102)) = 0
   \<and> snd (show_running_test up_counter (Some 50) 102 102) \<noteq> []"
proof -
  have a: "max (max_angle_in_cycle up_counter) (180 - 50 + 40)
       - min (min_angle_in_cycle up_counter) (180 - 50 + 40) < MIN_RANGE up_counter"
    by (simp add: up_counter_fields)
  have c: "state up_counter = UP" by (rule up_counter_fields)
  have d: "DOWN_THRESHOLD up_counter < 180 - 50 + 40" by (simp add: up_counter_fields)
  note w = no_false_completion[OF a, of 102 102]
  have r: "rep_count (fst (show_running_test up_counter (Some 50) 102 102)) = 0"
    using w by (simp add: up_counter_fields)
  have p: "snd (show_running_test up_counter (Some 50) 102 102) \<noteq> []"
    using w c d by blast
  show ?thesis using a c d r p by (intro conjI)
qed

section \<open>Properties of the marker calibrations\<close>


section \<open>Properties of the sit and reach baseline\<close>

text \<open>
  Once the lock is set, no frame changes the baseline: \<open>detect_box_baseline\<close> returns at
  once, and nothing else in the loop writes the baseline attributes.
\<close>

lemma detect_box_baseline_locked:
  "baseline_locked s \<Longrightarrow> detect_box_baseline s k b w = (s, True)"
  by (simp add: detect_box_baseline_def)

lemma calibrate_keeps_baseline:
  "baseline_locked (fst (calibrate_with_standard_box s k)) = baseline_locked s"
  "baseline_x (fst (calibrate_with_standard_box s k)) = baseline_x s"
  "baseline_y (fst (calibrate_with_standard_box s k)) = baseline_y s"
  by (simp_all add: calibrate_with_standard_box_def Let_def split: option.splits)

lemma ready_frame_locked:
  assumes "baseline_locked s"
  shows "baseline_locked (ready_frame s f) \<and> baseline_x (ready_frame s f) = baseline_x s
       \<and> baseline_y (ready_frame s f) = baseline_y s"
  using assms by (simp add: ready_frame_def detect_box_baseline_locked)

lemma other_frames_keep_baseline:
  "baseline_locked (countdown_frame s f) = baseline_locked s"
  "baseline_x (countdown_frame s f) = baseline_x s"
  "baseline_y (countdown_frame s f) = baseline_y s"
  "baseline_locked (measuring_frame s f) = baseline_locked s"
  "baseline_x (measuring_frame s f) = baseline_x s"
  "baseline_y (measuring_frame s f) = baseline_y s"
  "baseline_locked (attempt_result_frame s f) = baseline_locked s"
  "baseline_x (attempt_result_frame s f) = baseline_x s"
  "baseline_y (attempt_result_frame s f) = baseline_y s"
  by (simp_all add: countdown_frame_def measuring_frame_def attempt_result_frame_def
        next_attempt_def Let_def)

lemma run_test_frame_locked:
  assumes "baseline_locked s"
  shows "baseline_locked (run_test_frame s f) \<and> baseline_x (run_test_frame s f) = baseline_x s
       \<and> baseline_y (run_test_frame s f) = baseline_y s"
proof -
  define s0 where "s0 = (case obs_keypoints f of
                  None \<Rightarrow> s
                | Some k \<Rightarrow> fst (calibrate_with_standard_box s (Some k)))"
  have s0: "baseline_locked s0 \<and> baseline_x s0 = baseline_x s \<and> baseline_y s0 = baseline_y s"
    using assms by (simp add: s0_def calibrate_keeps_baseline split: option.splits)
  have "run_test_frame s f = (case test_state s0 of
           SR_READY \<Rightarrow> ready_frame s0 f
         | SR_COUNTDOWN \<Rightarrow> countdown_frame s0 f
         | SR_MEASURING \<Rightarrow> measuring_frame s0 f
         | SR_ATTEMPT_RESULT \<Rightarrow> attempt_result_frame s0 f
         | _ \<Rightarrow> s0)"
    by (simp only: run_test_frame_def s0_def Let_def)
  then show ?thesis
    using s0 ready_frame_locked[of s0 f]
    by (cases "test_state s0") (simp_all add: other_frames_keep_baseline)
qed

lemma baseline_fixed_once_locked:
  assumes "baseline_locked s"
  shows "baseline_x (run_test s frames) = baseline_x s
       \<and> baseline_y (run_test s frames) = baseline_y s
       \<and> baseline_locked (run_test s frames)"
  using assms unfolding run_test_def
proof (induction frames arbitrary: s)
  case Nil
  then show ?case by simp
next
  case (Cons f frames)
  from run_test_frame_locked[OF Cons.prems, of f] Cons.IH[of "run_test_frame s f"]
  show ?case by simp
qed

lemma locked_test_value:
  "baseline_locked locked_test \<and> baseline_x locked_test = Some 320
   \<and> baseline_y locked_test = Some 240 \<and> test_state locked_test = SR_READY"
  by code_simp

lemma locked_test_keeps_baseline:
  "baseline_x (run_test locked_test (first_attempt @ second_attempt)) = Some 320"
  using baseline_fixed_once_locked[of locked_test "first_attempt @ second_attempt"]
    locked_test_value by simp

text \<open>
  C9. The lock needs ten sampled frames, but the state \<open>READY\<close> starts the attempt on the
  first frame on which a baseline was detected and the position is correct. Here the first
  attempt starts on the first frame, with the baseline at pixel 320 and no lock; the frame
  that opens the second attempt sees the toes at pixel 512 and overwrites the baseline.
  The same reach to pixel 400 is recorded as 20 cm in the first attempt and as 0 in the
  second.
\<close>

theorem baseline_moves_between_attempts:
  "baseline_x (run_test init_sit_reach first_attempt) = Some 320
   \<and> attempts (run_test init_sit_reach first_attempt) = [20]
   \<and> test_state (run_test init_sit_reach first_attempt) = SR_READY
   \<and> baseline_x (run_test init_sit_reach (first_attempt @ second_attempt)) = Some 512
   \<and> attempts (run_test init_sit_reach (first_attempt @ second_attempt)) = [20, 0]"
  by code_simp


end
